theory Spec2Isabelle
  imports Complex_Main
begin

section \<open>Text primitives of the Python runtime\<close>

text \<open>
  A Python string is modelled as a list of code points below 256, one \<^typ>\<open>char\<close> each.
  On that range the whitespace of \<^verbatim>\<open>str.strip\<close>, \<^verbatim>\<open>str.split\<close> and \<^verbatim>\<open>int\<close> is
  the twelve code points listed in \<open>is_space\<close>, and the only characters matched by the
  regular expression class \<^verbatim>\<open>\d\<close> and accepted as digits by \<^verbatim>\<open>int\<close> are \<open>0\<close> to \<open>9\<close>.
\<close>

definition newline :: char where
  "newline = CHR 0x0A"

definition is_space :: "char \<Rightarrow> bool" where
  "is_space c = (of_char c \<in> set [9, 10, 11, 12, 13, 28, 29, 30, 31, 32, 133, 160 :: nat])"

definition is_digit :: "char \<Rightarrow> bool" where
  "is_digit c = (48 \<le> (of_char c :: nat) \<and> (of_char c :: nat) \<le> 57)"

definition digit_val :: "char \<Rightarrow> int" where
  "digit_val c = int (of_char c) - 48"

text \<open>\<^verbatim>\<open>s.strip()\<close>: whitespace removed at both ends.\<close>

definition py_strip :: "string \<Rightarrow> string" where
  "py_strip s = rev (dropWhile is_space (rev (dropWhile is_space s)))"

text \<open>\<^verbatim>\<open>s.split()\<close>: the maximal runs of non-whitespace; \<open>w\<close> is the word being read.\<close>

fun split_ws :: "string \<Rightarrow> string \<Rightarrow> string list" where
  "split_ws w [] = (if w = [] then [] else [w])"
| "split_ws w (c # cs) =
     (if is_space c then (if w = [] then split_ws [] cs else w # split_ws [] cs)
      else split_ws (w @ [c]) cs)"

definition py_split_ws :: "string \<Rightarrow> string list" where
  "py_split_ws s = split_ws [] s"

text \<open>\<^verbatim>\<open>s.split(sep)\<close> for a one-character separator: empty pieces are kept.\<close>

fun split_on :: "char \<Rightarrow> string \<Rightarrow> string \<Rightarrow> string list" where
  "split_on sep w [] = [w]"
| "split_on sep w (c # cs) =
     (if c = sep then w # split_on sep [] cs else split_on sep (w @ [c]) cs)"

definition py_split :: "char \<Rightarrow> string \<Rightarrow> string list" where
  "py_split sep s = split_on sep [] s"

text \<open>
  \<^verbatim>\<open>int(s)\<close> on a string: surrounding whitespace is stripped, one sign is allowed, then
  decimal digits, where single underscores may stand between two digits. \<open>None\<close> is
  the \<^verbatim>\<open>ValueError\<close>. The flag of \<open>int_digits\<close> says that the previous character was a
  digit.
\<close>

fun int_digits :: "bool \<Rightarrow> int \<Rightarrow> string \<Rightarrow> int option" where
  "int_digits prev acc [] = (if prev then Some acc else None)"
| "int_digits prev acc (c # cs) =
     (if is_digit c then int_digits True (10 * acc + digit_val c) cs
      else if c = CHR ''_'' \<and> prev then int_digits False acc cs
      else None)"

definition py_int :: "string \<Rightarrow> int option" where
  "py_int s =
     (case py_strip s of
        [] \<Rightarrow> None
      | c # cs \<Rightarrow>
          if c = CHR ''-'' then map_option uminus (int_digits False 0 cs)
          else if c = CHR ''+'' then int_digits False 0 cs
          else int_digits False 0 (c # cs))"

section \<open>The datetime library\<close>

text \<open>
  A naive \<^verbatim>\<open>datetime\<close> is modelled by the number of microseconds since the start of
  year 1 of the proleptic Gregorian calendar, which orders datetimes as Python compares
  them and makes adding a \<^verbatim>\<open>timedelta\<close> an addition. The constructor raises
  \<^verbatim>\<open>ValueError\<close> (\<open>None\<close>) on a field out of range; the day count follows the library's
  \<^verbatim>\<open>_ymd2ord\<close>, whose table of days before a month is read only for months 1 to 12.
\<close>

type_synonym instant = int

definition is_leap :: "int \<Rightarrow> bool" where
  "is_leap y = (y mod 4 = 0 \<and> (y mod 100 \<noteq> 0 \<or> y mod 400 = 0))"

definition days_in_month :: "int \<Rightarrow> int \<Rightarrow> int" where
  "days_in_month y m =
     (if m = 2 then (if is_leap y then 29 else 28)
      else if m = 4 \<or> m = 6 \<or> m = 9 \<or> m = 11 then 30 else 31)"

definition days_before_year :: "int \<Rightarrow> int" where
  "days_before_year y = (let p = y - 1 in p * 365 + p div 4 - p div 100 + p div 400)"

definition days_before_month :: "int \<Rightarrow> int \<Rightarrow> int" where
  "days_before_month y m =
     [0, 31, 59, 90, 120, 151, 181, 212, 243, 273, 304, 334] ! nat (m - 1)
       + (if 2 < m \<and> is_leap y then 1 else 0)"

definition ymd2ord :: "int \<Rightarrow> int \<Rightarrow> int \<Rightarrow> int" where
  "ymd2ord y m d = days_before_year y + days_before_month y m + d"

definition minute_us :: int where
  "minute_us = 60000000"

definition datetime :: "int \<Rightarrow> int \<Rightarrow> int \<Rightarrow> int \<Rightarrow> int \<Rightarrow> instant option" where
  "datetime y m d h mi =
     (if 1 \<le> y \<and> y \<le> 9999 \<and> 1 \<le> m \<and> m \<le> 12 \<and> 1 \<le> d \<and> d \<le> days_in_month y m
         \<and> 0 \<le> h \<and> h \<le> 23 \<and> 0 \<le> mi \<and> mi \<le> 59
      then Some (((ymd2ord y m d * 24 + h) * 60 + mi) * minute_us)
      else None)"

text \<open>The last representable minute: 23:59 on 31 December 9999.\<close>

definition last_minute :: instant where
  "last_minute = ((ymd2ord 9999 12 31 * 24 + 23) * 60 + 59) * minute_us"

text \<open>
  \<^verbatim>\<open>dt + timedelta(minutes=1)\<close>: raises \<^verbatim>\<open>OverflowError\<close> (\<open>None\<close>) when the sum
  leaves the representable range, whose last instant is one microsecond before the
  minute after \<open>last_minute\<close>.
\<close>

definition plus_minute :: "instant \<Rightarrow> instant option" where
  "plus_minute t = (if t + minute_us < last_minute + minute_us then Some (t + minute_us) else None)"

section \<open>Time texts\<close>

text \<open>
  The pattern \<^verbatim>\<open>^\d{2}:\d{2}-\d{2}\.\d{2}\.\d{2}$\<close> as a list of atoms. \<open>match_atoms\<close>
  consumes the atoms from the front of the string and returns the rest.
  \<^verbatim>\<open>re.match\<close> anchors at the start, and \<^verbatim>\<open>$\<close> (no \<^verbatim>\<open>MULTILINE\<close> flag) accepts the
  end of the string and also the position before a newline that ends the string.
\<close>

datatype atom = Digit | Lit char

fun match_atoms :: "atom list \<Rightarrow> string \<Rightarrow> string option" where
  "match_atoms [] s = Some s"
| "match_atoms (a # as) [] = None"
| "match_atoms (Digit # as) (c # cs) = (if is_digit c then match_atoms as cs else None)"
| "match_atoms (Lit l # as) (c # cs) = (if c = l then match_atoms as cs else None)"

definition pattern :: "atom list" where
  "pattern = [Digit, Digit, Lit CHR '':'', Digit, Digit, Lit CHR ''-'', Digit, Digit,
              Lit CHR ''.'', Digit, Digit, Lit CHR ''.'', Digit, Digit]"

definition re_match :: "string \<Rightarrow> bool" where
  "re_match s =
     (case match_atoms pattern s of
        None \<Rightarrow> False
      | Some rest \<Rightarrow> rest = [] \<or> rest = [newline])"

text \<open>
  The parse that the source writes three times, with the same text: inside
  \<^verbatim>\<open>validate_datetime_format\<close>, inside \<^verbatim>\<open>check_rental_end_times\<close> and as the local
  \<^verbatim>\<open>parse_dt\<close> of \<^verbatim>\<open>handle_text\<close>. Unpacking a list of the wrong length, \<^verbatim>\<open>int\<close> and the
  \<^verbatim>\<open>datetime\<close> constructor raise; every such exception is \<open>None\<close>.
\<close>

definition unpack2 :: "'a list \<Rightarrow> ('a \<times> 'a) option" where
  "unpack2 xs = (case xs of [a, b] \<Rightarrow> Some (a, b) | _ \<Rightarrow> None)"

definition unpack3 :: "'a list \<Rightarrow> ('a \<times> 'a \<times> 'a) option" where
  "unpack3 xs = (case xs of [a, b, c] \<Rightarrow> Some (a, b, c) | _ \<Rightarrow> None)"

fun all_ints :: "string list \<Rightarrow> int list option" where
  "all_ints [] = Some []"
| "all_ints (s # ss) =
     (case py_int s of
        None \<Rightarrow> None
      | Some i \<Rightarrow> (case all_ints ss of None \<Rightarrow> None | Some is \<Rightarrow> Some (i # is)))"

definition parse_dt :: "string \<Rightarrow> instant option" where
  "parse_dt dt_str =
     (case unpack2 (py_split CHR ''-'' dt_str) of
        None \<Rightarrow> None
      | Some (time_part, date_part) \<Rightarrow>
          (case Option.bind (all_ints (py_split CHR ''.'' date_part)) unpack3 of
             None \<Rightarrow> None
           | Some (day, month, year) \<Rightarrow>
               (case Option.bind (all_ints (py_split CHR '':'' time_part)) unpack2 of
                  None \<Rightarrow> None
                | Some (hour, minute) \<Rightarrow> datetime (2000 + year) month day hour minute)))"

definition validate_datetime_format :: "string \<Rightarrow> bool" where
  "validate_datetime_format dt_str =
     (if \<not> re_match dt_str then False
      else (case parse_dt dt_str of None \<Rightarrow> False | Some _ \<Rightarrow> True))"

text \<open>
  The shape of the specification: exactly fourteen characters, two digits in each field
  and the separators in their places.
\<close>

definition exact_shape :: "string \<Rightarrow> bool" where
  "exact_shape s = (match_atoms pattern s = Some [])"

text \<open>
  \<open>two s i\<close> is the number written by the two digits at positions \<open>i\<close> and \<open>i + 1\<close>.
  The fields are calendar-valid when the hour is at most 23, the minute at most 59, the
  month between 1 and 12 and the day between 1 and the length of the month in the year
  \<open>2000 + YY\<close>, where February has 29 days exactly in the years divisible by four.
\<close>

definition two :: "string \<Rightarrow> nat \<Rightarrow> int" where
  "two s i = 10 * digit_val (s ! i) + digit_val (s ! Suc i)"

definition calendar_valid :: "string \<Rightarrow> bool" where
  "calendar_valid s =
     (let hh = two s 0; mi = two s 3; dd = two s 6; mo = two s 9; yy = two s 12
      in hh \<le> 23 \<and> mi \<le> 59 \<and> 1 \<le> mo \<and> mo \<le> 12 \<and> 1 \<le> dd
         \<and> dd \<le> (if mo = 2 then (if yy mod 4 = 0 then 29 else 28)
                  else if mo = 4 \<or> mo = 6 \<or> mo = 9 \<or> mo = 11 then 30 else 31))"

section \<open>The store and its file\<close>

text \<open>
  Amounts are the numbers that \<^verbatim>\<open>float\<close> returns and JSON stores. They are modelled as
  exact rationals: the rounding of binary floating point, infinities and NaN are outside
  the model. A category record is the three totals; a rental carries the same three
  fields and four more, so it extends the record.
\<close>

record amounts =
  profit :: rat
  expense :: rat
  income :: rat

record rental = amounts +
  category :: string
  start_time :: string
  end_time :: string
  notified :: bool

record store =
  categories :: "string \<rightharpoonup> amounts"
  rentals :: "rental list"

text \<open>
  What \<^verbatim>\<open>financial_data.json\<close> can hold: no file, an empty file, text that is not JSON,
  a document whose categories are a legacy list of names, or a document in the current
  form; JSON of any other shape is outside the model. Writes are taken to succeed (an
  \<^verbatim>\<open>IOError\<close> of \<^verbatim>\<open>save_data\<close> is logged and swallowed by the source).
\<close>

datatype datafile = Missing | EmptyFile | Malformed | LegacyDoc "string list" "rental list" | Stored store

definition default_data :: store where
  "default_data = \<lparr>categories = Map.empty, rentals = []\<rparr>"

definition zero_amounts :: amounts where
  "zero_amounts = \<lparr>profit = 0, expense = 0, income = 0\<rparr>"

definition save_data :: "store \<Rightarrow> datafile \<Rightarrow> datafile" where
  "save_data data fs = Stored data"

definition load_data :: "datafile \<Rightarrow> store \<times> datafile" where
  "load_data fs =
     (case fs of
        Missing \<Rightarrow> (default_data, save_data default_data fs)
      | EmptyFile \<Rightarrow> (default_data, save_data default_data fs)
      | Malformed \<Rightarrow> (default_data, save_data default_data fs)
      | LegacyDoc names rs \<Rightarrow>
          (let data = \<lparr>categories = map_of (map (\<lambda>cat. (cat, zero_amounts)) names), rentals = rs\<rparr>
           in (data, save_data data fs))
      | Stored data \<Rightarrow> (data, fs))"

section \<open>Replies\<close>

text \<open>
  One constructor for each answer of the handlers that the ledger operations can give;
  the message texts themselves belong to the presentation layer.
\<close>

datatype reply =
    CategoryAdded
  | DuplicateError
  | NoCategorySelected
  | ArityError
  | ParseError
  | FormatErrorStart
  | FormatErrorEnd
  | OrderError
  | RentalAdded
  | UndoDone
  | IndexError
  | CategoryDeleted
  | NotFoundError

section \<open>Ledger operations\<close>

text \<open>The \<^verbatim>\<open>add_category\<close> branch of \<^verbatim>\<open>handle_text\<close>.\<close>

definition add_category :: "string \<Rightarrow> datafile \<Rightarrow> reply \<times> datafile" where
  "add_category msg fs =
     (let name = py_strip msg;
          (data, fs1) = load_data fs
      in if categories data name = None
         then (CategoryAdded, save_data (data\<lparr>categories := (categories data)(name \<mapsto> zero_amounts)\<rparr>) fs1)
         else (DuplicateError, fs1))"

text \<open>
  The \<^verbatim>\<open>add_rental\<close> branch of \<^verbatim>\<open>handle_text\<close>. \<open>float\<close> is Python's builtin on the
  strings it maps to a finite number (\<open>None\<close> is its \<^verbatim>\<open>ValueError\<close>); \<open>sel\<close> is
  \<^verbatim>\<open>user_data['selected_category']\<close>, \<open>None\<close> when the key is absent. The checks
  run in the order of the source: the two numbers, the start text, the end text, the
  order of the two instants. \<open>store_rental\<close> is the part after the checks: the rental is
  appended before the category is looked up, and the totals are touched only under the
  guard \<^verbatim>\<open>if category in data['categories']\<close>.
\<close>

definition store_rental :: "string \<Rightarrow> rat \<Rightarrow> rat \<Rightarrow> string \<Rightarrow> string \<Rightarrow> datafile \<Rightarrow> datafile" where
  "store_rental cname pr ex start_txt end_txt fs =
     (let inc = pr - ex;
          (data, fs1) = load_data fs;
          r = \<lparr>profit = pr, expense = ex, income = inc, category = cname,
               start_time = start_txt, end_time = end_txt, notified = False\<rparr>;
          data1 = data\<lparr>rentals := rentals data @ [r]\<rparr>;
          data2 =
            (case categories data1 cname of
               None \<Rightarrow> data1
             | Some c \<Rightarrow>
                 data1\<lparr>categories := (categories data1)(cname \<mapsto>
                   c\<lparr>profit := profit c + pr, expense := expense c + ex,
                     income := income c + inc\<rparr>)\<rparr>)
      in save_data data2 fs1)"

definition add_rental :: "(string \<Rightarrow> rat option) \<Rightarrow> string option \<Rightarrow> string \<Rightarrow> datafile \<Rightarrow> reply \<times> datafile" where
  "add_rental float sel msg fs =
     (case sel of
        None \<Rightarrow> (NoCategorySelected, fs)
      | Some cname \<Rightarrow>
          (case py_split_ws (py_strip msg) of
             [p, e, start_txt, end_txt] \<Rightarrow>
               (case float p of
                  None \<Rightarrow> (ParseError, fs)
                | Some pr \<Rightarrow>
                    (case float e of
                       None \<Rightarrow> (ParseError, fs)
                     | Some ex \<Rightarrow>
                         if \<not> validate_datetime_format start_txt then (FormatErrorStart, fs)
                         else if \<not> validate_datetime_format end_txt then (FormatErrorEnd, fs)
                         else
                           (case parse_dt start_txt of
                              None \<Rightarrow> (ParseError, fs)
                            | Some start_dt \<Rightarrow>
                                (case parse_dt end_txt of
                                   None \<Rightarrow> (ParseError, fs)
                                 | Some end_dt \<Rightarrow>
                                     if end_dt \<le> start_dt then (OrderError, fs)
                                     else (RentalAdded, store_rental cname pr ex start_txt end_txt fs)))))
           | _ \<Rightarrow> (ArityError, fs)))"

text \<open>
  \<^verbatim>\<open>undo_rental\<close>. Python's list indexing accepts \<open>- n \<le> i < n\<close> for a list of length
  \<open>n\<close>, a negative index counting from the end, and raises \<^verbatim>\<open>IndexError\<close> otherwise;
  the handler catches it and replies without saving.
\<close>

definition py_index :: "'a list \<Rightarrow> int \<Rightarrow> nat option" where
  "py_index xs i =
     (let n = int (length xs)
      in if i < - n \<or> n \<le> i then None else Some (nat (if i < 0 then i + n else i)))"

definition undo_rental :: "int \<Rightarrow> datafile \<Rightarrow> reply \<times> datafile" where
  "undo_rental rental_id fs =
     (let (data, fs1) = load_data fs
      in case py_index (rentals data) rental_id of
           None \<Rightarrow> (IndexError, fs1)
         | Some k \<Rightarrow>
             (let r = rentals data ! k;
                  cname = category r;
                  data1 =
                    (case categories data cname of
                       None \<Rightarrow> data
                     | Some c \<Rightarrow>
                         data\<lparr>categories := (categories data)(cname \<mapsto>
                           c\<lparr>profit := profit c - profit r,
                             expense := expense c - expense r,
                             income := income c - income r\<rparr>)\<rparr>);
                  data2 = data1\<lparr>rentals := take k (rentals data1) @ drop (Suc k) (rentals data1)\<rparr>
              in (UndoDone, save_data data2 fs1)))"

text \<open>\<^verbatim>\<open>delete_category\<close>.\<close>

definition delete_category :: "string \<Rightarrow> datafile \<Rightarrow> reply \<times> datafile" where
  "delete_category cname fs =
     (let (data, fs1) = load_data fs
      in if categories data cname \<noteq> None
         then (CategoryDeleted,
               save_data \<lparr>categories = (categories data)(cname := None),
                          rentals = filter (\<lambda>r. category r \<noteq> cname) (rentals data)\<rparr> fs1)
         else (NotFoundError, fs1))"

text \<open>
  \<^verbatim>\<open>show_category_stats\<close>: the figures that the message shows. The totals are summed
  over the rentals; the category record is not read.
\<close>

record stats =
  total_profit :: rat
  total_expense :: rat
  total_income :: rat
  n_rentals :: nat
  shown :: "rental list"

definition show_category_stats :: "string \<Rightarrow> datafile \<Rightarrow> stats \<times> datafile" where
  "show_category_stats cname fs =
     (let (data, fs1) = load_data fs;
          rs = filter (\<lambda>r. category r = cname) (rentals data);
          tp = sum_list (map profit rs);
          te = sum_list (map expense rs)
      in (\<lparr>total_profit = tp, total_expense = te, total_income = tp - te,
           n_rentals = length rs, shown = drop (length rs - 5) rs\<rparr>, fs1))"

section \<open>The scheduler tick\<close>

text \<open>
  The test of one rental in \<^verbatim>\<open>check_rental_end_times\<close>, after the \<open>notified\<close> check:
  parse the end text, then evaluate \<^verbatim>\<open>end_dt <= now < end_dt + timedelta(minutes=1)\<close>,
  where the sum is computed only when the first comparison holds. An exception of the
  parse or of the sum is caught by the handler around the loop body, which logs it and
  goes on with the next rental, as a false test does.
\<close>

definition end_reached :: "instant \<Rightarrow> rental \<Rightarrow> bool" where
  "end_reached now r =
     (case parse_dt (end_time r) of
        None \<Rightarrow> False
      | Some end_dt \<Rightarrow>
          if end_dt \<le> now
          then (case plus_minute end_dt of None \<Rightarrow> False | Some bound \<Rightarrow> now < bound)
          else False)"

text \<open>
  A sent message says which category ended. The model records with it the position of
  the rental in the list, so that a statement can say which rental a message is for.
\<close>

datatype notification = RentalEnded string

type_synonym outbox = "(nat \<times> notification) list"

text \<open>
  The loop over \<^verbatim>\<open>data['rentals']\<close>. \<open>seen\<close> holds the rentals already visited, as they
  are now in memory, and \<open>r # todo\<close> the rest. \<open>send k\<close> says whether
  \<^verbatim>\<open>send_message\<close> returns for the rental at position \<open>k\<close>; when it raises, the
  handler around the loop body catches the exception before the flag is set. The whole
  document is saved after each message.
\<close>

fun check_loop :: "(nat \<Rightarrow> bool) \<Rightarrow> instant \<Rightarrow> (string \<rightharpoonup> amounts) \<Rightarrow> rental list \<Rightarrow> rental list
    \<Rightarrow> datafile \<Rightarrow> outbox \<Rightarrow> rental list \<times> datafile \<times> outbox" where
  "check_loop send now cats seen [] fs out = (seen, fs, out)"
| "check_loop send now cats seen (r # todo) fs out =
     (if notified r then check_loop send now cats (seen @ [r]) todo fs out
      else if end_reached now r then
        (if send (length seen)
         then check_loop send now cats (seen @ [r\<lparr>notified := True\<rparr>]) todo
                (save_data \<lparr>categories = cats, rentals = seen @ r\<lparr>notified := True\<rparr> # todo\<rparr> fs)
                (out @ [(length seen, RentalEnded (category r))])
         else check_loop send now cats (seen @ [r]) todo fs out)
      else check_loop send now cats (seen @ [r]) todo fs out)"

definition check_rental_end_times :: "(nat \<Rightarrow> bool) \<Rightarrow> instant \<Rightarrow> datafile \<Rightarrow> datafile \<times> outbox" where
  "check_rental_end_times send now fs =
     (let (data, fs1) = load_data fs;
          (rs, fs2, out) = check_loop send now (categories data) [] (rentals data) fs1 []
      in (fs2, out))"

text \<open>A run of ticks, each with its own clock reading and its own notifier behaviour.\<close>

fun run_ticks :: "((nat \<Rightarrow> bool) \<times> instant) list \<Rightarrow> datafile \<Rightarrow> datafile \<times> outbox" where
  "run_ticks [] fs = (fs, [])"
| "run_ticks ((send, now) # ts) fs =
     (let (fs1, out1) = check_rental_end_times send now fs;
          (fs2, out2) = run_ticks ts fs1
      in (fs2, out1 @ out2))"

section \<open>Sequences of ledger commands\<close>

datatype command =
    AddCategory string
  | AddRental "string option" string
  | UndoRental int
  | DeleteCategory string

fun perform :: "(string \<Rightarrow> rat option) \<Rightarrow> command \<Rightarrow> datafile \<Rightarrow> reply \<times> datafile" where
  "perform float (AddCategory msg) fs = add_category msg fs"
| "perform float (AddRental sel msg) fs = add_rental float sel msg fs"
| "perform float (UndoRental i) fs = undo_rental i fs"
| "perform float (DeleteCategory cname) fs = delete_category cname fs"

fun run :: "(string \<Rightarrow> rat option) \<Rightarrow> command list \<Rightarrow> datafile \<Rightarrow> datafile" where
  "run float [] fs = fs"
| "run float (c # cs) fs = run float cs (snd (perform float c fs))"

section \<open>Notions of the specification\<close>

text \<open>
  The totals of the category \<open>cname\<close> agree with the rentals that name it: each of the
  three stored totals is the sum of that field over those rentals. A name without a
  category record has nothing to agree.
\<close>

definition rentals_of :: "string \<Rightarrow> store \<Rightarrow> rental list" where
  "rentals_of cname st = filter (\<lambda>r. category r = cname) (rentals st)"


text \<open>
  A rental is due at \<open>now\<close>: it is not yet notified and \<open>now\<close> lies in the half-open
  minute that starts at its end time.
\<close>

definition due :: "instant \<Rightarrow> rental \<Rightarrow> bool" where
  "due now r =
     (\<not> notified r \<and>
      (case parse_dt (end_time r) of
         None \<Rightarrow> False
       | Some end_dt \<Rightarrow> end_dt \<le> now \<and> now < end_dt + minute_us))"

text \<open>
  An instance of the \<open>float\<close> parameter for evaluating examples: it reads the integer
  literals, on which it agrees with Python's \<^verbatim>\<open>float\<close>.
\<close>

definition plain_number :: "string \<Rightarrow> rat option" where
  "plain_number s = map_option of_int (py_int s)"

text \<open>The rental and the store of the specification's scenario.\<close>

definition camera_rental :: rental where
  "camera_rental = \<lparr>profit = 50000, expense = 10000, income = 40000, category = ''Camera'',
     start_time = ''14:06-11.07.25'', end_time = ''14:07-11.07.25'', notified = False\<rparr>"

definition camera_store :: store where
  "camera_store =
     \<lparr>categories = [''Camera'' \<mapsto> \<lparr>profit = 50000, expense = 10000, income = 40000\<rparr>],
      rentals = [camera_rental]\<rparr>"





text \<open>
  What one pass of the loop does to the rental at a position: it fires when the rental is
  not notified, its end is reached and the message is delivered; a rental that fires gets
  its flag set and its message is announced.
\<close>

definition fires :: "(nat \<Rightarrow> bool) \<Rightarrow> instant \<Rightarrow> nat \<times> rental \<Rightarrow> bool" where
  "fires send now p = (\<not> notified (snd p) \<and> end_reached now (snd p) \<and> send (fst p))"

definition flagged :: "(nat \<Rightarrow> bool) \<Rightarrow> instant \<Rightarrow> nat \<times> rental \<Rightarrow> rental" where
  "flagged send now p = (if fires send now p then (snd p)\<lparr>notified := True\<rparr> else snd p)"

definition announce :: "nat \<times> rental \<Rightarrow> nat \<times> notification" where
  "announce p = (fst p, RentalEnded (category (snd p)))"

text \<open>The store of the scenario after its rental has been notified.\<close>

definition notified_store :: store where
  "notified_store = camera_store\<lparr>rentals := [camera_rental\<lparr>notified := True\<rparr>]\<rparr>"

section \<open>Evaluation of the examples\<close>

lemmas text_defs = py_split_ws_def py_strip_def is_space_def py_split_def

lemmas time_defs = validate_datetime_format_def re_match_def pattern_def is_digit_def newline_def
  parse_dt_def unpack2_def unpack3_def py_int_def digit_val_def datetime_def
  days_in_month_def is_leap_def ymd2ord_def days_before_year_def days_before_month_def minute_us_def

lemma plain_number_examples:
  "plain_number ''5'' = Some 5" "plain_number ''1'' = Some 1"
  "plain_number ''50000'' = Some 50000" "plain_number ''10000'' = Some 10000"
  by (simp_all add: plain_number_def py_int_def py_strip_def is_space_def is_digit_def digit_val_def)

lemma validate_examples:
  "validate_datetime_format ''14:06-11.07.25''" "validate_datetime_format ''14:07-11.07.25''"
  by (simp_all add: text_defs time_defs)

lemma parse_dt_examples:
  "parse_dt ''14:06-11.07.25'' = Some 63887925960000000"
  "parse_dt ''14:07-11.07.25'' = Some 63887926020000000"
  "parse_dt ''14:08-11.07.25'' = Some 63887926080000000"
  by (simp_all add: text_defs time_defs)

lemma split_examples:
  "py_split_ws (py_strip ''5 1 14:06-11.07.25 14:07-11.07.25'')
     = [''5'', ''1'', ''14:06-11.07.25'', ''14:07-11.07.25'']"
  "py_split_ws (py_strip ''50000 10000 14:06-11.07.25 14:07-11.07.25'')
     = [''50000'', ''10000'', ''14:06-11.07.25'', ''14:07-11.07.25'']"
  "py_split_ws (py_strip ''50000 10000 14:06-11.07.25 14:06-11.07.25'')
     = [''50000'', ''10000'', ''14:06-11.07.25'', ''14:06-11.07.25'']"
  by (simp_all add: text_defs)

lemma strip_examples: "py_strip ''Ghost'' = ''Ghost''" "py_strip ''Camera'' = ''Camera''"
  by (simp_all add: py_strip_def is_space_def)

lemma last_minute_value: "last_minute = 315537983940000000"
  by (simp add: last_minute_def ymd2ord_def days_before_year_def days_before_month_def
      is_leap_def minute_us_def)

lemma camera_due:
  "due 63887926020000000 camera_rental" "\<not> due 63887926080000000 camera_rental"
  by (simp_all add: due_def camera_rental_def parse_dt_examples minute_us_def)

section \<open>Facts about loading and saving\<close>



section \<open>Loading and migration\<close>

text \<open>
  Claim C9. Loading a document whose categories are a legacy list of names yields the
  map form, with one zero-valued record for each listed name and no other key, keeps
  the rentals, and leaves exactly the migrated document in the file. Loading a document
  that is already in map form returns it and leaves the file as it is.
\<close>

theorem load_data_migrates_legacy:
  "(let d = fst (load_data (LegacyDoc names rs))
    in snd (load_data (LegacyDoc names rs)) = Stored d
       \<and> rentals d = rs
       \<and> dom (categories d) = set names
       \<and> (\<forall>c \<in> set names. categories d c = Some zero_amounts))
   \<and> load_data (Stored st) = (st, Stored st)"
  by (auto simp: load_data_def save_data_def Let_def map_of_map_restrict restrict_map_def
      split: if_splits)

theorem load_data_migrates_legacy_witness:
  "(let d = fst (load_data (LegacyDoc [''Camera'', ''Bike''] []))
    in snd (load_data (LegacyDoc [''Camera'', ''Bike''] [])) = Stored d
       \<and> rentals d = []
       \<and> dom (categories d) = {''Camera'', ''Bike''}
       \<and> categories d ''Bike'' = Some zero_amounts)
   \<and> load_data (Stored default_data) = (default_data, Stored default_data)"
  using load_data_migrates_legacy [of "[''Camera'', ''Bike'']" "[]" default_data]
  by (simp add: Let_def)

section \<open>Statistics of a category\<close>

text \<open>
  Claim C10. The totals that \<open>show_category_stats\<close> reports for a name are the sums of
  profit and of expense over the rentals recorded under that name, and the reported
  income is the first sum minus the second. The category records are not consulted:
  replacing the whole categories map changes nothing in the report, and for a legacy
  document, whose migrated records are all zero, the report still shows the sums over
  the rentals.
\<close>

theorem stats_summed_over_rentals:
  "total_profit (fst (show_category_stats cname (Stored st)))
     = sum_list (map profit (rentals_of cname st))
   \<and> total_expense (fst (show_category_stats cname (Stored st)))
     = sum_list (map expense (rentals_of cname st))
   \<and> total_income (fst (show_category_stats cname (Stored st)))
     = sum_list (map profit (rentals_of cname st)) - sum_list (map expense (rentals_of cname st))
   \<and> fst (show_category_stats cname (Stored (st\<lparr>categories := cs\<rparr>)))
     = fst (show_category_stats cname (Stored st))
   \<and> total_profit (fst (show_category_stats cname (LegacyDoc names rs)))
     = sum_list (map profit (filter (\<lambda>r. category r = cname) rs))
   \<and> total_expense (fst (show_category_stats cname (LegacyDoc names rs)))
     = sum_list (map expense (filter (\<lambda>r. category r = cname) rs))"
  by (simp add: show_category_stats_def load_data_def save_data_def rentals_of_def Let_def)

theorem stats_summed_over_rentals_witness:
  "total_profit (fst (show_category_stats ''Camera'' (LegacyDoc [''Camera''] [camera_rental]))) = 50000
   \<and> total_expense (fst (show_category_stats ''Camera'' (LegacyDoc [''Camera''] [camera_rental]))) = 10000
   \<and> total_income (fst (show_category_stats ''Camera'' (Stored camera_store))) = 40000
   \<and> categories (fst (load_data (LegacyDoc [''Camera''] [camera_rental]))) ''Camera'' = Some zero_amounts"
  using stats_summed_over_rentals [of "''Camera''" camera_store Map.empty "[''Camera'']" "[camera_rental]"]
  by (simp add: camera_store_def camera_rental_def rentals_of_def load_data_def save_data_def Let_def)

section \<open>Deleting a category\<close>

text \<open>
  Claim C8. When the name is a key of the categories map, \<open>delete_category\<close> removes that
  entry and every rental whose category field is the name, keeps everything else, and
  saves the result; the statistics of the name, read from the saved file, are then the
  fallback of an unknown category: three zero totals, no rental counted, none shown.
  When the name is not a key, the reply is that the category was not found and the file is
  unchanged.
\<close>

theorem delete_category_cascades:
  "(categories st cname \<noteq> None \<longrightarrow>
      delete_category cname (Stored st)
        = (CategoryDeleted,
           Stored \<lparr>categories = (categories st)(cname := None),
                   rentals = filter (\<lambda>r. category r \<noteq> cname) (rentals st)\<rparr>)
      \<and> fst (show_category_stats cname (snd (delete_category cname (Stored st))))
        = \<lparr>total_profit = 0, total_expense = 0, total_income = 0, n_rentals = 0, shown = []\<rparr>)
   \<and> (categories st cname = None \<longrightarrow>
      delete_category cname (Stored st) = (NotFoundError, Stored st))"
  by (simp add: delete_category_def show_category_stats_def load_data_def save_data_def Let_def)

theorem delete_category_cascades_witness:
  "categories camera_store ''Camera'' \<noteq> None
   \<and> delete_category ''Camera'' (Stored camera_store) = (CategoryDeleted, Stored default_data)
   \<and> fst (show_category_stats ''Camera'' (snd (delete_category ''Camera'' (Stored camera_store))))
        = \<lparr>total_profit = 0, total_expense = 0, total_income = 0, n_rentals = 0, shown = []\<rparr>
   \<and> categories camera_store ''Bike'' = None
   \<and> delete_category ''Bike'' (Stored camera_store) = (NotFoundError, Stored camera_store)"
  using delete_category_cascades [of camera_store "''Camera''"]
    delete_category_cascades [of camera_store "''Bike''"]
  by (simp add: camera_store_def camera_rental_def default_data_def show_category_stats_def
      load_data_def)

section \<open>Adding a rental\<close>

text \<open>
  Claim C2, as stated, fails: a request that passes the checks and names a category that
  is not a key of the categories map is answered as added, and the rental is appended.
\<close>

theorem add_rental_missing_category_counterexample:
  "categories default_data ''Ghost'' = None
   \<and> add_rental plain_number (Some ''Ghost'') ''5 1 14:06-11.07.25 14:07-11.07.25'' (Stored default_data)
     = (RentalAdded,
        Stored (default_data\<lparr>rentals := [\<lparr>profit = 5, expense = 1, income = 4, category = ''Ghost'',
           start_time = ''14:06-11.07.25'', end_time = ''14:07-11.07.25'', notified = False\<rparr>]\<rparr>))"
  by (simp add: add_rental_def store_rental_def split_examples validate_examples parse_dt_examples
      plain_number_examples load_data_def save_data_def default_data_def)

text \<open>
  Claim C2, amended. For every store state and every request whose category name is not
  a key of the categories map, \<open>add_rental\<close> never replies with the not-found error and
  never changes the categories map; a request that is not answered as added leaves the
  file unchanged; and a request that passes the checks (four fields, two numbers, two
  valid time texts, end after start) is answered as added and appends its rental, with
  income equal to profit minus expense and the notified flag false.
\<close>

theorem add_rental_unknown_category:
  assumes "categories st cname = None"
  shows "fst (add_rental float (Some cname) msg (Stored st)) \<noteq> NotFoundError
    \<and> categories (fst (load_data (snd (add_rental float (Some cname) msg (Stored st))))) = categories st
    \<and> (fst (add_rental float (Some cname) msg (Stored st)) \<noteq> RentalAdded \<longrightarrow>
         snd (add_rental float (Some cname) msg (Stored st)) = Stored st)
    \<and> (py_split_ws (py_strip msg) = [p, e, s, t] \<and> float p = Some pr \<and> float e = Some ex
         \<and> validate_datetime_format s \<and> validate_datetime_format t
         \<and> parse_dt s = Some a \<and> parse_dt t = Some b \<and> a < b \<longrightarrow>
         add_rental float (Some cname) msg (Stored st)
           = (RentalAdded,
              Stored (st\<lparr>rentals := rentals st @
                [\<lparr>profit = pr, expense = ex, income = pr - ex, category = cname,
                  start_time = s, end_time = t, notified = False\<rparr>]\<rparr>)))"
proof -
  have sr: "store_rental cname x y u v (Stored st)
      = Stored (st\<lparr>rentals := rentals st @
                [\<lparr>profit = x, expense = y, income = x - y, category = cname,
                  start_time = u, end_time = v, notified = False\<rparr>]\<rparr>)" for x y u v
    using assms by (simp add: store_rental_def load_data_def save_data_def Let_def)
  show ?thesis
    by (auto simp: add_rental_def sr load_data_def split: list.splits option.splits)
qed

theorem add_rental_unknown_category_witness:
  "categories default_data ''Ghost'' = None
   \<and> py_split_ws (py_strip ''5 1 14:06-11.07.25 14:07-11.07.25'')
       = [''5'', ''1'', ''14:06-11.07.25'', ''14:07-11.07.25'']
   \<and> plain_number ''5'' = Some 5 \<and> plain_number ''1'' = Some 1
   \<and> validate_datetime_format ''14:06-11.07.25'' \<and> validate_datetime_format ''14:07-11.07.25''
   \<and> parse_dt ''14:06-11.07.25'' = Some 63887925960000000
   \<and> parse_dt ''14:07-11.07.25'' = Some 63887926020000000
   \<and> (63887925960000000 :: int) < 63887926020000000
   \<and> fst (add_rental plain_number (Some ''Ghost'') ''5 1 14:06-11.07.25 14:07-11.07.25'' (Stored default_data))
       \<noteq> NotFoundError
   \<and> add_rental plain_number (Some ''Ghost'') ''5 1 14:06-11.07.25 14:07-11.07.25'' (Stored default_data)
       = (RentalAdded,
          Stored (default_data\<lparr>rentals := rentals default_data @
            [\<lparr>profit = 5, expense = 1, income = 5 - 1, category = ''Ghost'',
              start_time = ''14:06-11.07.25'', end_time = ''14:07-11.07.25'', notified = False\<rparr>]\<rparr>))"
proof -
  have c: "categories default_data ''Ghost'' = None" by (simp add: default_data_def)
  from add_rental_unknown_category [OF c, of plain_number
      "''5 1 14:06-11.07.25 14:07-11.07.25''" "''5''" "''1''" "''14:06-11.07.25''"
      "''14:07-11.07.25''" 5 1 63887925960000000 63887926020000000]
  show ?thesis
    using c by (simp add: split_examples validate_examples parse_dt_examples plain_number_examples)
qed

text \<open>
  Claim C7. For every store state and every request of four fields whose start and end
  texts are valid and whose parsed end instant is not after the parsed start instant,
  \<open>add_rental\<close> does not add the rental and the file is unchanged: the categories map,
  with every total, and the rental list are what they were. The reply is the order
  error whenever the two numbers are read by \<open>float\<close>, which the source checks before
  the times.
\<close>

theorem add_rental_end_not_after_start:
  assumes "py_split_ws (py_strip msg) = [p, e, s, t]"
    and "validate_datetime_format s" and "validate_datetime_format t"
    and "parse_dt s = Some a" and "parse_dt t = Some b" and "b \<le> a"
  shows "snd (add_rental float (Some cname) msg (Stored st)) = Stored st
    \<and> fst (add_rental float (Some cname) msg (Stored st)) \<noteq> RentalAdded
    \<and> (float p \<noteq> None \<and> float e \<noteq> None \<longrightarrow>
         add_rental float (Some cname) msg (Stored st) = (OrderError, Stored st))"
  using assms by (auto simp: add_rental_def split: option.splits)

theorem add_rental_end_not_after_start_witness:
  "py_split_ws (py_strip ''50000 10000 14:06-11.07.25 14:06-11.07.25'')
     = [''50000'', ''10000'', ''14:06-11.07.25'', ''14:06-11.07.25'']
   \<and> plain_number ''50000'' \<noteq> None \<and> plain_number ''10000'' \<noteq> None
   \<and> validate_datetime_format ''14:06-11.07.25''
   \<and> parse_dt ''14:06-11.07.25'' = Some 63887925960000000
   \<and> (63887925960000000 :: int) \<le> 63887925960000000
   \<and> add_rental plain_number (Some ''Camera'') ''50000 10000 14:06-11.07.25 14:06-11.07.25'' (Stored camera_store)
     = (OrderError, Stored camera_store)"
proof -
  have n: "plain_number ''50000'' \<noteq> None \<and> plain_number ''10000'' \<noteq> None"
    by (simp add: plain_number_examples)
  from add_rental_end_not_after_start [OF split_examples(3) validate_examples(1)
      validate_examples(1) parse_dt_examples(1) parse_dt_examples(1), of plain_number "''Camera''"
      camera_store] n
  show ?thesis
    by (simp add: split_examples validate_examples parse_dt_examples)
qed

section \<open>Undoing a rental\<close>

text \<open>
  Claim C3, as stated, fails: with one rental in the list, the index \<open>- 1\<close> is outside
  \<open>0..n - 1\<close>, yet \<open>undo_rental\<close> succeeds and removes the rental.
\<close>

theorem undo_rental_negative_index_counterexample:
  "length (rentals camera_store) = 1
   \<and> fst (undo_rental (- 1) (Stored camera_store)) = UndoDone
   \<and> rentals (fst (load_data (snd (undo_rental (- 1) (Stored camera_store))))) = []"
  by (simp add: undo_rental_def py_index_def load_data_def save_data_def camera_store_def
      camera_rental_def Let_def)

text \<open>
  Claim C3, amended. For a rental list of length \<open>n\<close> and every integer index \<open>i\<close>,
  \<open>undo_rental\<close> fails with the index error, leaving the file unchanged, if and only if
  \<open>i < - n\<close> or \<open>n \<le> i\<close>. For \<open>- n \<le> i < n\<close> it acts on position \<open>i\<close>, or \<open>n + i\<close>
  when \<open>i\<close> is negative: it subtracts that rental's profit, expense and income from the
  totals of its category (the categories map stays as it is when the category no longer
  exists), removes the rental at that position and saves.
\<close>

theorem undo_rental_by_python_index:
  "(let n = int (length (rentals st))
    in (i < - n \<or> n \<le> i \<longrightarrow> undo_rental i (Stored st) = (IndexError, Stored st))
       \<and> (- n \<le> i \<and> i < n \<longrightarrow>
            (let k = nat (if i < 0 then i + n else i);
                 r = rentals st ! k
             in undo_rental i (Stored st)
                  = (UndoDone,
                     Stored \<lparr>categories =
                               (case categories st (category r) of
                                  None \<Rightarrow> categories st
                                | Some c \<Rightarrow> (categories st)(category r \<mapsto>
                                    c\<lparr>profit := profit c - profit r, expense := expense c - expense r,
                                      income := income c - income r\<rparr>)),
                             rentals = take k (rentals st) @ drop (Suc k) (rentals st)\<rparr>))))"
  by (cases st)
    (auto simp: undo_rental_def py_index_def load_data_def save_data_def Let_def split: option.splits)

theorem undo_rental_by_python_index_witness:
  "int (length (rentals notified_store)) \<le> 1
   \<and> undo_rental 1 (Stored notified_store) = (IndexError, Stored notified_store)
   \<and> - int (length (rentals notified_store)) \<le> 0 \<and> 0 < int (length (rentals notified_store))
   \<and> undo_rental 0 (Stored notified_store)
      = (UndoDone, Stored \<lparr>categories = [''Camera'' \<mapsto> zero_amounts], rentals = []\<rparr>)"
  using undo_rental_by_python_index [of notified_store 1]
    undo_rental_by_python_index [of notified_store 0]
  by (simp add: notified_store_def camera_store_def camera_rental_def zero_amounts_def Let_def)

section \<open>Validation of time texts\<close>

text \<open>
  What \<open>validate_datetime_format\<close> accepts, for every string: the strings of the exact
  shape whose fields are calendar-valid, and those same strings followed by one newline.
\<close>

lemma digit_val_range: "is_digit c \<Longrightarrow> 0 \<le> digit_val c \<and> digit_val c \<le> 9"
  by (auto simp: is_digit_def digit_val_def)

lemma leap_2000: "0 \<le> yy \<Longrightarrow> yy \<le> 99 \<Longrightarrow> is_leap (2000 + yy) \<longleftrightarrow> yy mod 4 = 0"
  unfolding is_leap_def by presburger

lemma datetime_2000:
  assumes "0 \<le> yy" "yy \<le> 99" "0 \<le> hh" "0 \<le> mi"
  shows "datetime (2000 + yy) mo dd hh mi \<noteq> None \<longleftrightarrow>
     hh \<le> 23 \<and> mi \<le> 59 \<and> 1 \<le> mo \<and> mo \<le> 12 \<and> 1 \<le> dd
       \<and> dd \<le> (if mo = 2 then (if yy mod 4 = 0 then 29 else 28)
                else if mo = 4 \<or> mo = 6 \<or> mo = 9 \<or> mo = 11 then 30 else 31)"
  using assms by (auto simp: datetime_def days_in_month_def leap_2000)

lemma digit_facts:
  "is_digit c \<Longrightarrow> \<not> is_space c \<and> c \<noteq> CHR ''-'' \<and> c \<noteq> CHR ''+'' \<and> c \<noteq> CHR ''.''
     \<and> c \<noteq> CHR '':'' \<and> c \<noteq> CHR ''_'' \<and> c \<noteq> newline"
  by (auto simp: is_digit_def is_space_def newline_def)

lemma py_int_two_digits:
  assumes "is_digit c" "is_digit d"
  shows "py_int [c, d] = Some (10 * digit_val c + digit_val d)"
    and "py_int [c, d, newline] = Some (10 * digit_val c + digit_val d)"
  using assms digit_facts [of c] digit_facts [of d]
  by (simp_all add: py_int_def py_strip_def is_space_def newline_def)

lemma split_on_digit:
  "is_digit c \<Longrightarrow> sep = CHR ''-'' \<or> sep = CHR ''.'' \<or> sep = CHR '':'' \<Longrightarrow>
     split_on sep w (c # cs) = split_on sep (w @ [c]) cs"
  using digit_facts [of c] by auto

lemma split_on_sep: "split_on sep w (sep # cs) = w # split_on sep [] cs"
  by simp

lemma split_on_other: "c \<noteq> sep \<Longrightarrow> split_on sep w (c # cs) = split_on sep (w @ [c]) cs"
  by simp

lemma split_on_rest:
  "rest = [] \<or> rest = [newline] \<Longrightarrow> sep = CHR ''-'' \<or> sep = CHR ''.'' \<or> sep = CHR '':'' \<Longrightarrow>
     split_on sep w rest = [w @ rest]"
  by (auto simp: newline_def)


lemma split_time_date:
  assumes "is_digit h1" "is_digit h2" "is_digit m1" "is_digit m2" "is_digit d1" "is_digit d2"
    "is_digit M1" "is_digit M2" "is_digit y1" "is_digit y2" "rest = [] \<or> rest = [newline]"
  shows "py_split CHR ''-'' (h1 # h2 # CHR '':'' # m1 # m2 # CHR ''-'' # d1 # d2 # CHR ''.'' # M1 # M2 # CHR ''.'' # y1 # y2 # rest)
     = [[h1, h2, CHR '':'', m1, m2], d1 # d2 # CHR ''.'' # M1 # M2 # CHR ''.'' # y1 # y2 # rest]"
proof -
  have o: "CHR '':'' \<noteq> CHR ''-''" "CHR ''.'' \<noteq> CHR ''-''" by simp_all
  show ?thesis
    unfolding py_split_def
    by (simp only: split_on_digit [OF assms(1)] split_on_digit [OF assms(2)]
        split_on_digit [OF assms(3)] split_on_digit [OF assms(4)] split_on_digit [OF assms(5)]
        split_on_digit [OF assms(6)] split_on_digit [OF assms(7)] split_on_digit [OF assms(8)]
        split_on_digit [OF assms(9)] split_on_digit [OF assms(10)]
        split_on_sep split_on_other [OF o(1)] split_on_other [OF o(2)]
        split_on_rest [OF assms(11)] append.simps simp_thms)
qed


lemma split_date:
  assumes "is_digit d1" "is_digit d2" "is_digit M1" "is_digit M2" "is_digit y1" "is_digit y2"
    "rest = [] \<or> rest = [newline]"
  shows "py_split CHR ''.'' (d1 # d2 # CHR ''.'' # M1 # M2 # CHR ''.'' # y1 # y2 # rest)
     = [[d1, d2], [M1, M2], y1 # y2 # rest]"
  unfolding py_split_def
  by (simp only: split_on_digit [OF assms(1)] split_on_digit [OF assms(2)]
      split_on_digit [OF assms(3)] split_on_digit [OF assms(4)] split_on_digit [OF assms(5)]
      split_on_digit [OF assms(6)] split_on_sep split_on_rest [OF assms(7)] append.simps simp_thms)

lemma split_time:
  assumes "is_digit h1" "is_digit h2" "is_digit m1" "is_digit m2"
  shows "py_split CHR '':'' [h1, h2, CHR '':'', m1, m2] = [[h1, h2], [m1, m2]]"
  unfolding py_split_def
  by (simp only: split_on_digit [OF assms(1)] split_on_digit [OF assms(2)]
      split_on_digit [OF assms(3)] split_on_digit [OF assms(4)] split_on_sep split_on.simps(1)
      append.simps simp_thms)

lemma py_int_year:
  assumes "is_digit y1" "is_digit y2" "rest = [] \<or> rest = [newline]"
  shows "py_int (y1 # y2 # rest) = Some (10 * digit_val y1 + digit_val y2)"
  using assms(3) py_int_two_digits [OF assms(1, 2)] by auto

lemma parse_dt_shaped:
  assumes "is_digit h1" "is_digit h2" "is_digit m1" "is_digit m2" "is_digit d1" "is_digit d2"
    "is_digit M1" "is_digit M2" "is_digit y1" "is_digit y2" "rest = [] \<or> rest = [newline]"
  shows "parse_dt (h1 # h2 # CHR '':'' # m1 # m2 # CHR ''-'' # d1 # d2 # CHR ''.'' # M1 # M2 # CHR ''.'' # y1 # y2 # rest)
     = datetime (2000 + (10 * digit_val y1 + digit_val y2)) (10 * digit_val M1 + digit_val M2)
         (10 * digit_val d1 + digit_val d2) (10 * digit_val h1 + digit_val h2)
         (10 * digit_val m1 + digit_val m2)"
  unfolding parse_dt_def split_time_date [OF assms]
  by (simp add: unpack2_def unpack3_def split_date [OF assms(5-11)] split_time [OF assms(1-4)]
      py_int_two_digits(1) [OF assms(1, 2)] py_int_two_digits(1) [OF assms(3, 4)]
      py_int_two_digits(1) [OF assms(5, 6)] py_int_two_digits(1) [OF assms(7, 8)]
      py_int_year [OF assms(9-11)] del: split_on.simps)


lemma shapedE:
  assumes "match_atoms pattern s = Some rest"
  obtains h1 h2 m1 m2 d1 d2 M1 M2 y1 y2 where
    "s = h1 # h2 # CHR '':'' # m1 # m2 # CHR ''-'' # d1 # d2 # CHR ''.'' # M1 # M2 # CHR ''.'' # y1 # y2 # rest"
    "is_digit h1" "is_digit h2" "is_digit m1" "is_digit m2" "is_digit d1" "is_digit d2"
    "is_digit M1" "is_digit M2" "is_digit y1" "is_digit y2"
proof -
  have m: "match_atoms (a # as) t = Some r \<Longrightarrow>
     \<exists>c cs. t = c # cs \<and> (case a of Digit \<Rightarrow> is_digit c | Lit l \<Rightarrow> c = l) \<and> match_atoms as cs = Some r"
    for a as t r
    by (cases t; cases a) (auto split: if_splits)
  from assms show ?thesis
    unfolding pattern_def
    by (auto dest!: m intro!: that)
qed


lemma two_shaped:
  assumes "s = h1 # h2 # c1 # m1 # m2 # c2 # d1 # d2 # c3 # M1 # M2 # c4 # y1 # y2 # rest"
  shows "two s 0 = 10 * digit_val h1 + digit_val h2" "two s 3 = 10 * digit_val m1 + digit_val m2"
    "two s 6 = 10 * digit_val d1 + digit_val d2" "two s 9 = 10 * digit_val M1 + digit_val M2"
    "two s 12 = 10 * digit_val y1 + digit_val y2"
  by (simp_all add: assms two_def)


lemma re_match_shaped:
  "match_atoms pattern s = Some rest \<Longrightarrow> re_match s \<longleftrightarrow> rest = [] \<or> rest = [newline]"
  by (simp add: re_match_def)

lemma validate_shaped:
  assumes "match_atoms pattern s = Some rest"
  shows "validate_datetime_format s \<longleftrightarrow> (rest = [] \<or> rest = [newline]) \<and> calendar_valid s"
proof (cases "rest = [] \<or> rest = [newline]")
  case True
  show ?thesis
  proof (rule shapedE [OF assms])
    fix h1 h2 m1 m2 d1 d2 M1 M2 y1 y2
    assume s: "s = h1 # h2 # CHR '':'' # m1 # m2 # CHR ''-'' # d1 # d2 # CHR ''.'' # M1 # M2 # CHR ''.'' # y1 # y2 # rest"
      and d: "is_digit h1" "is_digit h2" "is_digit m1" "is_digit m2" "is_digit d1" "is_digit d2"
        "is_digit M1" "is_digit M2" "is_digit y1" "is_digit y2"
    note n = two_shaped [OF s]
    have "parse_dt s = datetime (2000 + (10 * digit_val y1 + digit_val y2)) (10 * digit_val M1 + digit_val M2)
         (10 * digit_val d1 + digit_val d2) (10 * digit_val h1 + digit_val h2)
         (10 * digit_val m1 + digit_val m2)"
      unfolding s by (rule parse_dt_shaped [OF d True])
    then have p: "parse_dt s = datetime (2000 + two s 12) (two s 9) (two s 6) (two s 0) (two s 3)"
      by (simp only: n)
    have r: "re_match s"
      using True by (simp only: re_match_shaped [OF assms])
    have b: "0 \<le> two s 12" "two s 12 \<le> 99" "0 \<le> two s 0" "0 \<le> two s 3"
      unfolding n using digit_val_range [OF d(1)] digit_val_range [OF d(2)]
        digit_val_range [OF d(3)] digit_val_range [OF d(4)] digit_val_range [OF d(9)]
        digit_val_range [OF d(10)] by simp_all
    have "validate_datetime_format s \<longleftrightarrow> parse_dt s \<noteq> None"
      unfolding validate_datetime_format_def using r by (cases "parse_dt s") simp_all
    also have "\<dots> \<longleftrightarrow> calendar_valid s"
      unfolding p calendar_valid_def Let_def by (rule datetime_2000 [OF b])
    finally have "validate_datetime_format s \<longleftrightarrow> calendar_valid s" .
    with True show ?thesis by blast
  qed
next
  case False
  then have "\<not> re_match s"
    by (simp only: re_match_shaped [OF assms] simp_thms)
  with False show ?thesis
    by (simp add: validate_datetime_format_def)
qed


lemma match_atoms_append:
  "match_atoms as s = Some [] \<Longrightarrow> match_atoms as (s @ t) = Some t"
  by (induction as s rule: match_atoms.induct) (auto split: if_splits)

lemma match_atoms_prefix:
  "match_atoms as s = Some rest \<Longrightarrow> \<exists>s0. s = s0 @ rest \<and> match_atoms as s0 = Some []"
proof (induction as s rule: match_atoms.induct)
  case (1 s)
  then show ?case by simp
next
  case (2 a as)
  then show ?case by simp
next
  case (3 as c cs)
  then obtain s0 where "cs = s0 @ rest" "match_atoms as s0 = Some []" "is_digit c"
    by (auto split: if_splits)
  then show ?case by (intro exI [of _ "c # s0"]) simp
next
  case (4 l as c cs)
  then obtain s0 where "cs = s0 @ rest" "match_atoms as s0 = Some []" "c = l"
    by (auto split: if_splits)
  then show ?case by (intro exI [of _ "c # s0"]) simp
qed


lemma validate_characterised:
  "validate_datetime_format s \<longleftrightarrow>
     (exact_shape s \<or> (\<exists>s0. s = s0 @ [newline] \<and> exact_shape s0)) \<and> calendar_valid s"
proof (cases "match_atoms pattern s")
  case None
  have "\<not> exact_shape s" using None by (simp add: exact_shape_def)
  moreover have "\<not> (\<exists>s0. s = s0 @ [newline] \<and> exact_shape s0)"
    using None match_atoms_append [of pattern _ "[newline]"] by (auto simp: exact_shape_def)
  ultimately show ?thesis
    using None by (simp add: validate_datetime_format_def re_match_def)
next
  case (Some rest)
  from match_atoms_prefix [OF Some] obtain s1 where
    s1: "s = s1 @ rest" "match_atoms pattern s1 = Some []" by blast
  have "(exact_shape s \<or> (\<exists>s0. s = s0 @ [newline] \<and> exact_shape s0))
      \<longleftrightarrow> (rest = [] \<or> rest = [newline])"
  proof
    assume "rest = [] \<or> rest = [newline]"
    with s1 show "exact_shape s \<or> (\<exists>s0. s = s0 @ [newline] \<and> exact_shape s0)"
      by (auto simp: exact_shape_def)
  next
    assume "exact_shape s \<or> (\<exists>s0. s = s0 @ [newline] \<and> exact_shape s0)"
    then show "rest = [] \<or> rest = [newline]"
    proof
      assume "exact_shape s"
      with Some show ?thesis by (simp add: exact_shape_def)
    next
      assume "\<exists>s0. s = s0 @ [newline] \<and> exact_shape s0"
      then obtain s0 where "s = s0 @ [newline]" "match_atoms pattern s0 = Some []"
        by (auto simp: exact_shape_def)
      with match_atoms_append [of pattern s0 "[newline]"] Some show ?thesis by simp
    qed
  qed
  with validate_shaped [OF Some] show ?thesis by simp
qed

text \<open>
  The three malformed strings that the specification gives as examples, and 31 February,
  are rejected.
\<close>

lemma validate_rejects_examples:
  "\<not> validate_datetime_format ''25:00-01.01.25''"
  "\<not> validate_datetime_format ''14:06-32.01.25''"
  "\<not> validate_datetime_format ''1406-11.07.25''"
  "\<not> validate_datetime_format ''14:06-31.02.25''"
  by (simp_all add: text_defs time_defs)

text \<open>
  Claim C4 at the input that separates the code from it: a valid time text followed by
  one newline has fifteen characters and so is not of the exact shape, and
  \<open>validate_datetime_format\<close> accepts it.
\<close>

theorem validate_accepts_trailing_newline:
  "validate_datetime_format (''14:06-11.07.25'' @ [newline])
   \<and> \<not> exact_shape (''14:06-11.07.25'' @ [newline])"
  by (simp add: exact_shape_def text_defs time_defs)

section \<open>The totals invariant\<close>


lemma rentals_of_categories_update [simp]:
  "rentals_of cname (st\<lparr>categories := m\<rparr>) = rentals_of cname st"
  by (simp add: rentals_of_def)










text \<open>
  The scenario of the specification: adding the category and then the rental, from the
  empty state, gives the store \<open>camera_store\<close>. A rental added under a name that has
  no category, followed by the creation of that category, gives a zero record beside a
  rental that names it.
\<close>

lemma camera_run:
  "run plain_number [AddCategory ''Camera'',
       AddRental (Some ''Camera'') ''50000 10000 14:06-11.07.25 14:07-11.07.25''] (Stored default_data)
   = Stored camera_store"
  by (simp add: add_rental_def store_rental_def add_category_def split_examples validate_examples
      parse_dt_examples plain_number_examples strip_examples load_data_def save_data_def
      default_data_def camera_store_def camera_rental_def zero_amounts_def)





section \<open>The scheduler tick, characterised\<close>

lemma flagged_none:
  "\<forall>p \<in> set ps. \<not> fires send now p \<Longrightarrow> map (flagged send now) ps = map snd ps"
  by (induction ps) (simp_all add: flagged_def)

lemma check_loop_exact:
  "check_loop send now cats seen todo fs out =
      (seen @ map (flagged send now) (enumerate (length seen) todo),
       (if \<exists>p \<in> set (enumerate (length seen) todo). fires send now p
        then Stored \<lparr>categories = cats,
                     rentals = seen @ map (flagged send now) (enumerate (length seen) todo)\<rparr>
        else fs),
       out @ map announce (filter (fires send now) (enumerate (length seen) todo)))"
proof (induction todo arbitrary: seen fs out)
  case Nil
  show ?case by simp
next
  case (Cons r todo)
  show ?case
  proof (cases "fires send now (length seen, r)")
    case True
    then show ?thesis
      by (simp add: Cons.IH fires_def flagged_def announce_def save_data_def flagged_none)
  next
    case False
    then show ?thesis
      by (auto simp: Cons.IH fires_def flagged_def)
  qed
qed

lemma tick_exact:
  "check_rental_end_times send now (Stored st) =
     (Stored (st\<lparr>rentals := map (flagged send now) (enumerate 0 (rentals st))\<rparr>),
      map announce (filter (fires send now) (enumerate 0 (rentals st))))"
proof (cases "\<exists>p \<in> set (enumerate 0 (rentals st)). fires send now p")
  case True
  then show ?thesis
    using check_loop_exact [of send now "categories st" "[]" "rentals st" "Stored st" "[]"]
    by (cases st) (simp add: check_rental_end_times_def load_data_def)
next
  case False
  then have "map (flagged send now) (enumerate 0 (rentals st)) = rentals st"
    by (simp add: flagged_none)
  with False show ?thesis
    using check_loop_exact [of send now "categories st" "[]" "rentals st" "Stored st" "[]"]
    by (simp add: check_rental_end_times_def load_data_def)
qed

lemma due_iff_end_reached:
  assumes "now < last_minute"
  shows "due now r \<longleftrightarrow> \<not> notified r \<and> end_reached now r"
  using assms
  by (auto simp: due_def end_reached_def plus_minute_def split: option.splits)

lemma map_enumerate_snd: "map (\<lambda>p. f (snd p)) (enumerate k xs) = map f xs"
  by (induction xs arbitrary: k) simp_all

text \<open>
  Claim C5. At every clock reading before the last minute of year 9999, and with a
  notifier that delivers, one tick on any store state sends a message, naming the
  rental's category, for exactly the rentals that are due (not notified, and
  \<open>end_time \<le> now < end_time + 60 s\<close>), in list order; it sets the notified flag of each
  of them and leaves in the file the store with those flags set. Every other rental, and
  the categories map, are unchanged.
\<close>

theorem tick_notifies_due_rentals:
  assumes "now < last_minute"
  shows "check_rental_end_times (\<lambda>k. True) now (Stored st) =
      (Stored (st\<lparr>rentals := map (\<lambda>r. if due now r then r\<lparr>notified := True\<rparr> else r) (rentals st)\<rparr>),
       map (\<lambda>(i, r). (i, RentalEnded (category r)))
         (filter (\<lambda>(i, r). due now r) (enumerate 0 (rentals st))))"
proof -
  have f: "fires (\<lambda>k. True) now = (\<lambda>(i, r). due now r)"
    using assms by (auto simp: fires_def due_iff_end_reached fun_eq_iff)
  have a: "announce = (\<lambda>(i, r). (i, RentalEnded (category r)))"
    by (auto simp: announce_def fun_eq_iff)
  have "map (flagged (\<lambda>k. True) now) (enumerate 0 (rentals st))
      = map (\<lambda>p. (\<lambda>r. if due now r then r\<lparr>notified := True\<rparr> else r) (snd p)) (enumerate 0 (rentals st))"
    by (rule map_cong) (auto simp: flagged_def f)
  also have "\<dots> = map (\<lambda>r. if due now r then r\<lparr>notified := True\<rparr> else r) (rentals st)"
    by (rule map_enumerate_snd)
  finally have m: "map (flagged (\<lambda>k. True) now) (enumerate 0 (rentals st))
      = map (\<lambda>r. if due now r then r\<lparr>notified := True\<rparr> else r) (rentals st)" .
  show ?thesis
    unfolding tick_exact m f a ..
qed

theorem tick_notifies_due_rentals_witness:
  "(63887926020000000 :: int) < last_minute
   \<and> check_rental_end_times (\<lambda>k. True) 63887926020000000 (Stored camera_store)
       = (Stored (camera_store\<lparr>rentals := [camera_rental\<lparr>notified := True\<rparr>]\<rparr>),
          [(0, RentalEnded ''Camera'')])
   \<and> (63887926080000000 :: int) < last_minute
   \<and> check_rental_end_times (\<lambda>k. True) 63887926080000000 (Stored camera_store)
       = (Stored camera_store, [])"
proof -
  have a: "(63887926020000000 :: int) < last_minute" and b: "(63887926080000000 :: int) < last_minute"
    by (simp_all add: last_minute_value)
  have c: "category camera_rental = ''Camera''" by (simp add: camera_rental_def)
  have r: "rentals camera_store = [camera_rental]" by (simp add: camera_store_def)
  from tick_notifies_due_rentals [OF a, of camera_store] tick_notifies_due_rentals [OF b, of camera_store]
  show ?thesis
    using a b by (simp add: r c camera_due)
qed

lemma tick_keeps_notified:
  assumes "check_rental_end_times send now (Stored st) = (fs', out)"
  shows "\<exists>st'. fs' = Stored st' \<and> length (rentals st') = length (rentals st)
      \<and> (\<forall>i < length (rentals st). notified (rentals st ! i) \<longrightarrow>
            rentals st' ! i = rentals st ! i \<and> i \<notin> fst ` set out)
      \<and> (\<forall>i \<in> fst ` set out. i < length (rentals st) \<and> notified (rentals st' ! i))
      \<and> distinct (map fst out)"
proof -
  let ?rs = "rentals st"
  let ?st = "st\<lparr>rentals := map (flagged send now) (enumerate 0 ?rs)\<rparr>"
  from assms have fs: "fs' = Stored ?st"
    and out: "out = map announce (filter (fires send now) (enumerate 0 ?rs))"
    by (simp_all add: tick_exact)
  have 1: "length (rentals ?st) = length ?rs" by simp
  have 2: "rentals ?st ! i = ?rs ! i \<and> i \<notin> fst ` set out"
    if "i < length ?rs" "notified (?rs ! i)" for i
    using that by (auto simp: out nth_enumerate_eq flagged_def fires_def announce_def in_set_enumerate_eq)
  have 3: "i < length ?rs \<and> notified (rentals ?st ! i)" if "i \<in> fst ` set out" for i
    using that by (auto simp: out nth_enumerate_eq flagged_def announce_def in_set_enumerate_eq)
  have "map fst out = map fst (filter (fires send now) (enumerate 0 ?rs))"
    by (simp add: out announce_def comp_def)
  then have 4: "distinct (map fst out)"
    by (simp add: distinct_map_filter)
  from fs 1 2 3 4 show ?thesis by blast
qed

text \<open>
  Claim C6. Over any run of ticks, whatever the clock readings and whatever the notifier
  does: a rental whose notified flag is true at the start keeps its place, is left
  unchanged (so its flag is never reset) and gets no message; and no position gets more
  than one message in the whole run, so a flag goes from false to true at most once.
\<close>

theorem notified_rental_never_renotified:
  "(i < length (rentals st) \<and> notified (rentals st ! i) \<longrightarrow>
      (let st' = fst (load_data (fst (run_ticks ts (Stored st))))
       in length (rentals st') = length (rentals st) \<and> rentals st' ! i = rentals st ! i)
      \<and> i \<notin> fst ` set (snd (run_ticks ts (Stored st))))
   \<and> distinct (map fst (snd (run_ticks ts (Stored st))))"
proof -
  have "\<exists>st'. fst (run_ticks ts (Stored st)) = Stored st'
      \<and> length (rentals st') = length (rentals st)
      \<and> (\<forall>i < length (rentals st). notified (rentals st ! i) \<longrightarrow>
            rentals st' ! i = rentals st ! i \<and> i \<notin> fst ` set (snd (run_ticks ts (Stored st))))
      \<and> distinct (map fst (snd (run_ticks ts (Stored st))))"
  proof (induction ts arbitrary: st)
    case Nil
    show ?case by simp
  next
    case (Cons t ts)
    obtain send now where t: "t = (send, now)" by (cases t)
    obtain fs1 out1 where s1: "check_rental_end_times send now (Stored st) = (fs1, out1)"
      by (cases "check_rental_end_times send now (Stored st)")
    from tick_keeps_notified [OF s1] obtain st1 where
      fs1: "fs1 = Stored st1" and len1: "length (rentals st1) = length (rentals st)"
      and keep1: "\<forall>i < length (rentals st). notified (rentals st ! i) \<longrightarrow>
            rentals st1 ! i = rentals st ! i \<and> i \<notin> fst ` set out1"
      and new1: "\<forall>i \<in> fst ` set out1. i < length (rentals st) \<and> notified (rentals st1 ! i)"
      and d1: "distinct (map fst out1)"
      by blast
    obtain fs2 out2 where s2: "run_ticks ts (Stored st1) = (fs2, out2)"
      by (cases "run_ticks ts (Stored st1)")
    from Cons.IH [of st1] s2 obtain st2 where
      fs2: "fs2 = Stored st2" and len2: "length (rentals st2) = length (rentals st1)"
      and keep2: "\<forall>i < length (rentals st1). notified (rentals st1 ! i) \<longrightarrow>
            rentals st2 ! i = rentals st1 ! i \<and> i \<notin> fst ` set out2"
      and d2: "distinct (map fst out2)"
      by auto
    have r: "run_ticks (t # ts) (Stored st) = (Stored st2, out1 @ out2)"
      by (simp add: t s1 fs1 s2 fs2)
    have disj: "fst ` set out1 \<inter> fst ` set out2 = {}"
      using new1 keep2 len1 by fastforce
    have k: "rentals st2 ! i = rentals st ! i \<and> i \<notin> fst ` set (out1 @ out2)"
      if "i < length (rentals st)" "notified (rentals st ! i)" for i
      using that keep1 keep2 len1 by (metis Un_iff image_Un set_append)
    from d1 d2 disj have "distinct (map fst (out1 @ out2))" by simp
    with k len1 len2 show ?case by (simp add: r)
  qed
  then show ?thesis by (auto simp: load_data_def Let_def)
qed

theorem notified_rental_never_renotified_witness:
  "0 < length (rentals notified_store) \<and> notified (rentals notified_store ! 0)
   \<and> (let st' = fst (load_data (fst (run_ticks
              [(\<lambda>k. True, 63887926020000000), (\<lambda>k. True, 63887926080000000)] (Stored notified_store))))
       in length (rentals st') = length (rentals notified_store)
          \<and> rentals st' ! 0 = rentals notified_store ! 0)
   \<and> 0 \<notin> fst ` set (snd (run_ticks
              [(\<lambda>k. True, 63887926020000000), (\<lambda>k. True, 63887926080000000)] (Stored notified_store)))
   \<and> distinct (map fst (snd (run_ticks
              [(\<lambda>k. True, 63887926020000000), (\<lambda>k. True, 63887926080000000)] (Stored notified_store))))"
proof -
  have h: "0 < length (rentals notified_store) \<and> notified (rentals notified_store ! 0)"
    by (simp add: notified_store_def)
  from notified_rental_never_renotified [of 0 notified_store
      "[(\<lambda>k. True, 63887926020000000), (\<lambda>k. True, 63887926080000000)]"] h
  show ?thesis by (simp add: Let_def)
qed

end
